theory Spec2Isabelle
  imports Complex_Main
begin

section \<open>JavaScript values, truthiness and property access\<close>

text \<open>
  The API client (\<open>lib/api\<close>: token management, \<open>apiFetch\<close>, \<open>sendMessage\<close>,
  \<open>sendMessageStream\<close>) handles values that come out of \<open>JSON.parse\<close> and \<open>res.json()\<close>.
  They are modelled by one datatype of JavaScript values. \<open>Undefined\<close> is what reading a
  missing property gives. An object is an association list, read with \<open>map_of\<close>.
\<close>

datatype jsval =
    Undefined
  | JNull
  | JBool bool
  | JNum rat
  | JStr string
  | JArr "jsval list"
  | JObj "(string \<times> jsval) list"

text \<open>What a \<open>throw\<close> or a rejected promise carries. \<open>Error v\<close> is \<open>new Error(v)\<close>.\<close>

datatype exn =
    Error jsval
  | TypeError
  | ReferenceError
  | SyntaxError

text \<open>JavaScript truthiness, as used by \<open>if (x)\<close>, \<open>!!x\<close> and \<open>x || y\<close>.\<close>

fun truthy :: "jsval \<Rightarrow> bool" where
  "truthy Undefined = False"
| "truthy JNull = False"
| "truthy (JBool b) = b"
| "truthy (JNum r) = (r \<noteq> 0)"
| "truthy (JStr s) = (s \<noteq> [])"
| "truthy (JArr xs) = True"
| "truthy (JObj kvs) = True"

text \<open>\<open>a || b\<close>\<close>

definition js_or :: "jsval \<Rightarrow> jsval \<Rightarrow> jsval" where
  "js_or a b = (if truthy a then a else b)"

text \<open>
  \<open>v.k\<close> for the property names the client reads (\<open>type\<close>, \<open>content\<close>, \<open>sources\<close>,
  \<open>detail\<close>): reading a property of \<open>null\<close> or \<open>undefined\<close> throws a TypeError, an object
  gives its own property or \<open>undefined\<close>, and no primitive or array has a property of
  one of these names.
\<close>

fun get_prop :: "jsval \<Rightarrow> string \<Rightarrow> exn + jsval" where
  "get_prop Undefined k = Inl TypeError"
| "get_prop JNull k = Inl TypeError"
| "get_prop (JObj kvs) k = (case map_of kvs k of None \<Rightarrow> Inr Undefined | Some v \<Rightarrow> Inr v)"
| "get_prop v k = Inr Undefined"

text \<open>A value of type \<open>string | null\<close>, as \<open>getToken\<close> returns it, inside a template literal.\<close>

fun template :: "string option \<Rightarrow> string" where
  "template None = ''null''"
| "template (Some s) = s"

section \<open>Requests, responses and the platform\<close>

text \<open>
  \<open>RequestInit\<close> as the callers build it: \<open>method\<close>, \<open>headers\<close> (a
  \<open>Record<string, string>\<close>, possibly absent) and \<open>body\<close>.
\<close>

record request_init =
  init_method :: "string option"
  init_headers :: "(string \<rightharpoonup> string) option"
  init_body :: "string option"

text \<open>What is handed to \<open>fetch\<close>: the URL and the init object.\<close>

record request =
  req_url :: string
  req_method :: "string option"
  req_headers :: "string \<rightharpoonup> string"
  req_body :: "string option"

text \<open>
  One \<open>reader.read()\<close>: a piece of the body, the end of the stream, or a rejection.
  \<open>Chunk s\<close> carries the text that \<open>decoder.decode(value, {stream: true})\<close> returns for
  the bytes of that read.
\<close>

datatype read_result = Chunk string | Done | ReadFails exn

text \<open>
  A response: its status, what \<open>res.json()\<close> settles to, and \<open>res.body\<close>: absent, or a
  reader given by the result of its n-th \<open>read()\<close>.
\<close>

record response =
  res_status :: nat
  res_json :: "exn + jsval"
  res_body :: "(nat \<Rightarrow> read_result) option"

definition res_ok :: "response \<Rightarrow> bool" where
  "res_ok res = (200 \<le> res_status res \<and> res_status res \<le> 299)"

datatype fetch_result = FetchFails exn | Responds response

text \<open>
  The built-ins the client calls: \<open>JSON.parse\<close> (which throws on malformed text),
  \<open>JSON.stringify\<close> and \<open>fetch\<close>. They are parameters of the model.
\<close>

record platform =
  JSON_parse :: "string \<Rightarrow> exn + jsval"
  JSON_stringify :: "jsval \<Rightarrow> string"
  fetch :: "request \<Rightarrow> fetch_result"

text \<open>
  The state the client reads and writes: whether \<open>window\<close> is defined, \<open>localStorage\<close>,
  the setting \<open>NEXT_PUBLIC_API_URL\<close>, the values assigned to \<open>window.location.href\<close>,
  the requests handed to \<open>fetch\<close> and the number of \<open>res.json()\<close> calls, in order.
\<close>

record world =
  has_window :: bool
  localStorage :: "string \<rightharpoonup> string"
  env_api_url :: "string option"
  navigations :: "string list"
  sent :: "request list"
  json_reads :: nat

definition API_URL :: "world \<Rightarrow> string" where
  "API_URL w = (case env_api_url w of
                  None \<Rightarrow> ''http://localhost:8000''
                | Some u \<Rightarrow> if u \<noteq> [] then u else ''http://localhost:8000'')"

section \<open>Token management\<close>

text \<open>
  Each operation returns its result and the state after it. Without \<open>window\<close> there is
  no \<open>localStorage\<close> either: \<open>getToken\<close> guards against that, \<open>setToken\<close> and
  \<open>clearToken\<close> do not and throw a ReferenceError.
\<close>

definition getToken :: "world \<Rightarrow> string option \<times> world" where
  "getToken w = (if \<not> has_window w then (None, w) else (localStorage w ''token'', w))"

definition setToken :: "string \<Rightarrow> world \<Rightarrow> exn + world" where
  "setToken token w =
     (if has_window w then Inr (w\<lparr>localStorage := (localStorage w)(''token'' \<mapsto> token)\<rparr>)
      else Inl ReferenceError)"

definition clearToken :: "world \<Rightarrow> exn + world" where
  "clearToken w =
     (if has_window w then Inr (w\<lparr>localStorage := (localStorage w)(''token'' := None)\<rparr>)
      else Inl ReferenceError)"

text \<open>\<open>!!getToken()\<close>: \<open>null\<close> and the empty string are falsy.\<close>

definition isLoggedIn :: "world \<Rightarrow> bool \<times> world" where
  "isLoggedIn w =
     (case getToken w of
        (None, w') \<Rightarrow> (False, w')
      | (Some t, w') \<Rightarrow> (t \<noteq> [], w'))"

section \<open>Base fetch\<close>

text \<open>
  What the spread \<open>...(options.headers as Record<string, string>)\<close> contributes: nothing
  when \<open>options.headers\<close> is undefined.
\<close>

definition caller_headers :: "request_init \<Rightarrow> string \<rightharpoonup> string" where
  "caller_headers options = (case init_headers options of None \<Rightarrow> Map.empty | Some h \<Rightarrow> h)"

text \<open>
  \<open>apiFetch\<close> returns what its promise settles to (\<open>Inl\<close>: rejected) and the state
  after it.
\<close>

definition apiFetch ::
  "platform \<Rightarrow> string \<Rightarrow> request_init \<Rightarrow> world \<Rightarrow> (exn + jsval) \<times> world" where
  "apiFetch P path options w =
     (let token = fst (getToken w);
          headers0 = [''Content-Type'' \<mapsto> ''application/json'']
                       ++ caller_headers options;
          headers = (case token of
                       None \<Rightarrow> headers0
                     | Some t \<Rightarrow> if t \<noteq> [] then headers0(''Authorization'' \<mapsto> ''Bearer '' @ t)
                                else headers0);
          req = \<lparr>req_url = API_URL w @ path, req_method = init_method options,
                 req_headers = headers, req_body = init_body options\<rparr>;
          w1 = w\<lparr>sent := sent w @ [req]\<rparr>
      in case fetch P req of
           FetchFails e \<Rightarrow> (Inl e, w1)
         | Responds res \<Rightarrow>
             if res_status res = 401 then
               (case clearToken w1 of
                  Inl e \<Rightarrow> (Inl e, w1)
                | Inr w2 \<Rightarrow>
                    (Inl (Error (JStr ''Unauthorized'')),
                     if has_window w2 then w2\<lparr>navigations := navigations w2 @ [''/login'']\<rparr>
                     else w2))
             else if \<not> res_ok res then
               (let w2 = w1\<lparr>json_reads := json_reads w1 + 1\<rparr>;
                    error = (case res_json res of
                               Inl e \<Rightarrow> JObj [(''detail'', JStr ''Request failed'')]
                             | Inr v \<Rightarrow> v)
                in case get_prop error ''detail'' of
                     Inl e \<Rightarrow> (Inl e, w2)
                   | Inr d \<Rightarrow> (Inl (Error (js_or d (JStr ''Request failed''))), w2))
             else (res_json res, w1\<lparr>json_reads := json_reads w1 + 1\<rparr>))"

section \<open>Chat\<close>

datatype role = User | Assistant

fun role_name :: "role \<Rightarrow> string" where
  "role_name User = ''user''"
| "role_name Assistant = ''assistant''"

record source =
  filename :: string
  source_type :: string
  drive_link :: "string option"

record chat_message =
  msg_role :: role
  msg_content :: string
  msg_sources :: "source list option"

definition sendMessage ::
  "platform \<Rightarrow> string \<Rightarrow> string \<Rightarrow> rat \<Rightarrow> string \<Rightarrow> chat_message list \<Rightarrow> world
     \<Rightarrow> (exn + jsval) \<times> world" where
  "sendMessage P message mode year stream conversationHistory w =
     apiFetch P ''/chat''
       \<lparr>init_method = Some ''POST'',
        init_headers = None,
        init_body = Some (JSON_stringify P (JObj
          [(''message'', JStr message),
           (''mode'', JStr mode),
           (''year'', JNum year),
           (''stream'', JStr stream),
           (''conversation_history'',
              JArr (map (\<lambda>m. JObj [(''role'', JStr (role_name (msg_role m))),
                                     (''content'', JStr (msg_content m))])
                        conversationHistory))]))\<rparr>
       w"

subsection \<open>The streaming consumer\<close>

text \<open>
  The calls made to the three callbacks of \<open>sendMessageStream\<close>, in order. The callbacks
  belong to the caller; they are taken to return normally.
\<close>

datatype callback = OnChunk jsval | OnDone jsval | OnError jsval

datatype outcome = Resolved | Rejected exn

text \<open>\<open>s.split("\n")\<close>: one more piece than there are newlines, never an empty array.\<close>

fun split_nl :: "string \<Rightarrow> string list" where
  "split_nl [] = [[]]"
| "split_nl (c # cs) =
     (if c = CHR 0x0A then [] # split_nl cs
      else (case split_nl cs of
              [] \<Rightarrow> [[c]]
            | piece # pieces \<Rightarrow> (c # piece) # pieces))"

text \<open>
  The body of the \<open>try\<close> block after \<open>JSON.parse\<close>: the dispatch on \<open>data.type\<close> with
  \<open>===\<close>. A thrown TypeError is a value here; \<open>handle_line\<close> is the \<open>catch\<close>.
\<close>

definition dispatch :: "jsval \<Rightarrow> exn + callback list" where
  "dispatch data =
     (case get_prop data ''type'' of
        Inl e \<Rightarrow> Inl e
      | Inr t \<Rightarrow>
          if t = JStr ''chunk'' then
            (case get_prop data ''content'' of Inl e \<Rightarrow> Inl e | Inr c \<Rightarrow> Inr [OnChunk c])
          else if t = JStr ''done'' then
            (case get_prop data ''sources'' of
               Inl e \<Rightarrow> Inl e
             | Inr s \<Rightarrow> Inr [OnDone (js_or s (JArr []))])
          else if t = JStr ''error'' then
            (case get_prop data ''content'' of Inl e \<Rightarrow> Inl e | Inr c \<Rightarrow> Inr [OnError c])
          else Inr [])"

text \<open>One iteration of \<open>for (const line of lines)\<close>: the callbacks it calls.\<close>

definition handle_line :: "platform \<Rightarrow> string \<Rightarrow> callback list" where
  "handle_line P line =
     (if take 6 line = ''data: '' then
        (case JSON_parse P (drop 6 line) of
           Inl e \<Rightarrow> []
         | Inr data \<Rightarrow> (case dispatch data of Inl e \<Rightarrow> [] | Inr cbs \<Rightarrow> cbs))
      else [])"

fun process_lines :: "platform \<Rightarrow> string list \<Rightarrow> callback list \<Rightarrow> callback list" where
  "process_lines P [] tr = tr"
| "process_lines P (line # lines) tr = process_lines P lines (tr @ handle_line P line)"

text \<open>
  The \<open>while (true)\<close> loop, from the \<open>i\<close>-th read on, with the buffer and the callbacks
  called so far. A body that never reports the end of the stream keeps the loop reading:
  the result is then \<open>None\<close>.
\<close>

partial_function (option) read_loop ::
  "platform \<Rightarrow> (nat \<Rightarrow> read_result) \<Rightarrow> nat \<Rightarrow> string \<Rightarrow> callback list
     \<Rightarrow> (callback list \<times> outcome) option" where
  "read_loop P reader i buffer tr =
     (case reader i of
        Done \<Rightarrow> Some (tr, Resolved)
      | ReadFails e \<Rightarrow> Some (tr, Rejected e)
      | Chunk s \<Rightarrow>
          (let lines = split_nl (buffer @ s)
           in read_loop P reader (Suc i) (last lines)
                (process_lines P (butlast lines) tr)))"

text \<open>
  \<open>sendMessageStream\<close> returns the state after it and what happened: the callbacks
  called and whether the promise resolved or rejected, or \<open>None\<close> when the stream never
  ends.
\<close>

definition sendMessageStream ::
  "platform \<Rightarrow> string \<Rightarrow> string \<Rightarrow> rat \<Rightarrow> string \<Rightarrow> chat_message list \<Rightarrow> world
     \<Rightarrow> world \<times> (callback list \<times> outcome) option" where
  "sendMessageStream P message mode year stream conversationHistory w =
     (let token = fst (getToken w);
          req = \<lparr>req_url = API_URL w @ ''/chat/stream'',
                 req_method = Some ''POST'',
                 req_headers = [''Content-Type'' \<mapsto> ''application/json'',
                                ''Authorization'' \<mapsto> ''Bearer '' @ template token],
                 req_body = Some (JSON_stringify P (JObj
                   [(''message'', JStr message),
                    (''mode'', JStr mode),
                    (''year'', JNum year),
                    (''stream'', JStr stream),
                    (''conversation_history'',
                       JArr (map (\<lambda>m. JObj [(''role'', JStr (role_name (msg_role m))),
                                              (''content'', JStr (msg_content m))])
                                 conversationHistory))]))\<rparr>;
          w1 = w\<lparr>sent := sent w @ [req]\<rparr>
      in case fetch P req of
           FetchFails e \<Rightarrow> (w1, Some ([], Rejected e))
         | Responds res \<Rightarrow>
             if \<not> res_ok res then
               (let w2 = w1\<lparr>json_reads := json_reads w1 + 1\<rparr>;
                    error = (case res_json res of
                               Inl e \<Rightarrow> JObj [(''detail'', JStr ''Stream failed'')]
                             | Inr v \<Rightarrow> v)
                in case get_prop error ''detail'' of
                     Inl e \<Rightarrow> (w2, Some ([], Rejected e))
                   | Inr d \<Rightarrow> (w2, Some ([OnError (js_or d (JStr ''Stream failed''))], Resolved)))
             else
               (case res_body res of
                  None \<Rightarrow> (w1, Some ([OnError (JStr ''No response body'')], Resolved))
                | Some reader \<Rightarrow> (w1, read_loop P reader 0 [] [])))"

section \<open>Notions used to state the properties\<close>

text \<open>A body that delivers the pieces \<open>cs\<close>, one per read, and then ends.\<close>

definition stream_of :: "string list \<Rightarrow> nat \<Rightarrow> read_result" where
  "stream_of cs i = (if i < length cs then Chunk (cs ! i) else Done)"

text \<open>
  The callbacks of the complete lines of a text, line by line: what is behind the last
  newline is not a complete line.
\<close>

definition events :: "platform \<Rightarrow> string \<Rightarrow> callback list" where
  "events P text = concat (map (handle_line P) (butlast (split_nl text)))"

text \<open>The lines \<open>ls\<close> on the wire, each terminated by a newline.\<close>

definition wire :: "string list \<Rightarrow> string" where
  "wire ls = concat (map (\<lambda>l. l @ [CHR 0x0A]) ls)"

text \<open>
  The request that a call hands to \<open>fetch\<close>: the last entry of the log of requests after
  the call.
\<close>

definition api_request :: "platform \<Rightarrow> string \<Rightarrow> request_init \<Rightarrow> world \<Rightarrow> request" where
  "api_request P path options w = last (sent (snd (apiFetch P path options w)))"

definition chat_request ::
  "platform \<Rightarrow> string \<Rightarrow> string \<Rightarrow> rat \<Rightarrow> string \<Rightarrow> chat_message list \<Rightarrow> world \<Rightarrow> request" where
  "chat_request P message mode year stream conversationHistory w =
     last (sent (snd (sendMessage P message mode year stream conversationHistory w)))"

definition stream_request ::
  "platform \<Rightarrow> string \<Rightarrow> string \<Rightarrow> rat \<Rightarrow> string \<Rightarrow> chat_message list \<Rightarrow> world \<Rightarrow> request" where
  "stream_request P message mode year stream conversationHistory w =
     last (sent (fst (sendMessageStream P message mode year stream conversationHistory w)))"

text \<open>A body that delivers the pieces \<open>cs\<close> and whose next read rejects with \<open>e\<close>.\<close>

definition broken_stream :: "string list \<Rightarrow> exn \<Rightarrow> nat \<Rightarrow> read_result" where
  "broken_stream cs e i = (if i < length cs then Chunk (cs ! i) else ReadFails e)"

section \<open>Sample platforms and states\<close>

text \<open>
  Concrete instances of the parameters, on which the theorems below are exercised: a
  serialiser (of non-negative whole numbers and of strings that need no escape), a parser
  that knows four event texts and rejects every other text, a platform whose \<open>fetch\<close>
  always settles the same way, a browser with or without a stored token, a state
  without \<open>window\<close>, a response that streams given pieces and a response with a
  status and a JSON body but no readable body.
\<close>

fun show_nat :: "nat \<Rightarrow> string" where
  "show_nat n =
     (if n < 10 then [char_of (48 + n)]
      else show_nat (n div 10) @ [char_of (48 + n mod 10)])"

fun commas :: "string list \<Rightarrow> string" where
  "commas [] = []"
| "commas [x] = x"
| "commas (x # y # zs) = x @ '','' @ commas (y # zs)"

fun sample_stringify :: "jsval \<Rightarrow> string" where
  "sample_stringify Undefined = ''undefined''"
| "sample_stringify JNull = ''null''"
| "sample_stringify (JBool b) = (if b then ''true'' else ''false'')"
| "sample_stringify (JNum r) = show_nat (nat \<lfloor>r\<rfloor>)"
| "sample_stringify (JStr s) = CHR 0x22 # s @ [CHR 0x22]"
| "sample_stringify (JArr xs) = ''['' @ commas (map sample_stringify xs) @ '']''"
| "sample_stringify (JObj kvs) =
     ''{'' @ commas (map (\<lambda>(k, v). CHR 0x22 # k @ [CHR 0x22] @ '':'' @ sample_stringify v) kvs)
       @ ''}''"

definition sample_parse :: "string \<Rightarrow> exn + jsval" where
  \<open>sample_parse s =
     (case map_of
        [(''{"type":"chunk","content":"a"}'',
            JObj [(''type'', JStr ''chunk''), (''content'', JStr ''a'')]),
         (''{"type":"chunk","content":"b"}'',
            JObj [(''type'', JStr ''chunk''), (''content'', JStr ''b'')]),
         (''{"type":"done","sources":[]}'',
            JObj [(''type'', JStr ''done''), (''sources'', JArr [])]),
         (''{"type":"error","content":"boom"}'',
            JObj [(''type'', JStr ''error''), (''content'', JStr ''boom'')])] s of
        None \<Rightarrow> Inl SyntaxError
      | Some v \<Rightarrow> Inr v)\<close>

definition serving :: "fetch_result \<Rightarrow> platform" where
  "serving r = \<lparr>JSON_parse = sample_parse, JSON_stringify = sample_stringify, fetch = (\<lambda>req. r)\<rparr>"

definition browser :: "string option \<Rightarrow> world" where
  "browser tok =
     \<lparr>has_window = True,
      localStorage = (case tok of None \<Rightarrow> Map.empty | Some t \<Rightarrow> [''token'' \<mapsto> t]),
      env_api_url = None, navigations = [], sent = [], json_reads = 0\<rparr>"

definition no_window :: world where
  "no_window =
     \<lparr>has_window = False, localStorage = Map.empty,
      env_api_url = None, navigations = [], sent = [], json_reads = 0\<rparr>"

definition streaming :: "string list \<Rightarrow> fetch_result" where
  "streaming cs =
     Responds \<lparr>res_status = 200, res_json = Inl SyntaxError, res_body = Some (stream_of cs)\<rparr>"

definition answering :: "nat \<Rightarrow> exn + jsval \<Rightarrow> fetch_result" where
  "answering code body = Responds \<lparr>res_status = code, res_json = body, res_body = None\<rparr>"

section \<open>Splitting into lines\<close>

lemma split_nl_nonempty [simp]: "split_nl s \<noteq> []"
  by (induction s) (auto split: list.splits)

lemma split_nl_no_nl: "CHR 0x0A \<notin> set s \<Longrightarrow> split_nl s = [s]"
  by (induction s) auto

lemma split_nl_line:
  "CHR 0x0A \<notin> set l \<Longrightarrow> split_nl (l @ CHR 0x0A # rest) = l # split_nl rest"
  by (induction l) auto

lemma last_split_nl_no_nl: "CHR 0x0A \<notin> set (last (split_nl s))"
proof (induction s)
  case Nil
  show ?case by simp
next
  case (Cons c s)
  show ?case
  proof (cases "c = CHR 0x0A")
    case True
    with Cons show ?thesis by simp
  next
    case False
    obtain x xs where sp: "split_nl s = x # xs"
      by (cases "split_nl s") auto
    with Cons False show ?thesis by (cases xs) auto
  qed
qed

lemma split_nl_append:
  "split_nl (a @ b) = butlast (split_nl a) @ split_nl (last (split_nl a) @ b)"
proof (induction a)
  case Nil
  show ?case by simp
next
  case (Cons c a)
  show ?case
  proof (cases "c = CHR 0x0A")
    case True
    with Cons show ?thesis by simp
  next
    case False
    obtain x xs where sp: "split_nl a = x # xs"
      by (cases "split_nl a") auto
    show ?thesis
    proof (cases xs)
      case Nil
      with sp False Cons show ?thesis by simp
    next
      case (Cons y ys)
      with sp False Cons.IH show ?thesis by simp
    qed
  qed
qed

lemma process_lines_trace:
  "process_lines P ls tr = tr @ concat (map (handle_line P) ls)"
  by (induction ls arbitrary: tr) auto

lemma events_append:
  "events P (a @ b) = events P a @ events P (last (split_nl a) @ b)"
proof -
  have "butlast (split_nl (a @ b)) =
          butlast (split_nl a) @ butlast (split_nl (last (split_nl a) @ b))"
    by (subst split_nl_append) (simp add: butlast_append)
  then show ?thesis by (simp add: events_def)
qed

lemma events_no_nl: "CHR 0x0A \<notin> set s \<Longrightarrow> events P s = []"
  by (simp add: events_def split_nl_no_nl)

lemma read_loop_finite:
  assumes "CHR 0x0A \<notin> set buf"
    and "\<And>j. j < length cs \<Longrightarrow> reader (i + j) = Chunk (cs ! j)"
    and "reader (i + length cs) = r"
    and "r \<noteq> Done \<longrightarrow> (\<exists>e. r = ReadFails e)"
  shows "read_loop P reader i buf tr =
           Some (tr @ events P (buf @ concat cs),
                 case r of ReadFails e \<Rightarrow> Rejected e | _ \<Rightarrow> Resolved)"
  using assms
proof (induction cs arbitrary: i buf tr)
  case Nil
  then show ?case
    by (subst read_loop.simps) (auto simp: events_no_nl split: read_result.splits)
next
  case (Cons c cs)
  have r0: "reader i = Chunk c" using Cons.prems(2) [of 0] by simp
  have nl: "CHR 0x0A \<notin> set (last (split_nl (buf @ c)))" by (rule last_split_nl_no_nl)
  have step: "\<And>j. j < length cs \<Longrightarrow> reader (Suc i + j) = Chunk (cs ! j)"
    using Cons.prems(2) [of "Suc _"] by simp
  have fin: "reader (Suc i + length cs) = r" using Cons.prems(3) by simp
  have "read_loop P reader i buf tr =
          read_loop P reader (Suc i) (last (split_nl (buf @ c)))
            (process_lines P (butlast (split_nl (buf @ c))) tr)"
    by (subst read_loop.simps) (simp add: r0 Let_def)
  also have "\<dots> = Some (process_lines P (butlast (split_nl (buf @ c))) tr
                         @ events P (last (split_nl (buf @ c)) @ concat cs),
                       case r of ReadFails e \<Rightarrow> Rejected e | _ \<Rightarrow> Resolved)"
    by (rule Cons.IH [OF nl step fin Cons.prems(4)])
  also have "process_lines P (butlast (split_nl (buf @ c))) tr
               @ events P (last (split_nl (buf @ c)) @ concat cs)
             = tr @ events P ((buf @ c) @ concat cs)"
    by (subst events_append [of P "buf @ c"]) (simp add: process_lines_trace events_def)
  finally show ?case by simp
qed

lemma events_wire:
  "(\<And>l. l \<in> set ls \<Longrightarrow> CHR 0x0A \<notin> set l) \<Longrightarrow> CHR 0x0A \<notin> set rest
     \<Longrightarrow> events P (wire ls @ rest) = concat (map (handle_line P) ls)"
proof (induction ls)
  case Nil
  then show ?case by (simp add: wire_def events_no_nl)
next
  case (Cons l ls)
  have "split_nl (wire (l # ls) @ rest) = l # split_nl (wire ls @ rest)"
    using Cons.prems(1) [of l] by (simp add: wire_def split_nl_line)
  then show ?case using Cons by (simp add: events_def)
qed


section \<open>The request sent and the lines read\<close>

lemma read_loop_stream_of:
  "read_loop P (stream_of cs) 0 [] [] = Some (events P (concat cs), Resolved)"
  using read_loop_finite [of "[]" cs "stream_of cs" 0 Done P "[]"]
  by (simp add: stream_of_def)

lemma apiFetch_sent:
  "sent (snd (apiFetch P path options w)) =
     sent w @ [\<lparr>req_url = API_URL w @ path, req_method = init_method options,
                req_headers =
                  (case fst (getToken w) of
                     None \<Rightarrow> [''Content-Type'' \<mapsto> ''application/json''] ++ caller_headers options
                   | Some t \<Rightarrow>
                       if t \<noteq> []
                       then ([''Content-Type'' \<mapsto> ''application/json''] ++ caller_headers options)
                              (''Authorization'' \<mapsto> ''Bearer '' @ t)
                       else [''Content-Type'' \<mapsto> ''application/json''] ++ caller_headers options),
                req_body = init_body options\<rparr>]"
  by (simp add: apiFetch_def Let_def clearToken_def
           split: fetch_result.splits sum.splits option.splits)

lemma api_request_eq:
  "api_request P path options w =
     \<lparr>req_url = API_URL w @ path, req_method = init_method options,
      req_headers =
        (case fst (getToken w) of
           None \<Rightarrow> [''Content-Type'' \<mapsto> ''application/json''] ++ caller_headers options
         | Some t \<Rightarrow>
             if t \<noteq> []
             then ([''Content-Type'' \<mapsto> ''application/json''] ++ caller_headers options)
                    (''Authorization'' \<mapsto> ''Bearer '' @ t)
             else [''Content-Type'' \<mapsto> ''application/json''] ++ caller_headers options),
      req_body = init_body options\<rparr>"
  by (simp add: api_request_def apiFetch_sent)

lemma sendMessageStream_sent:
  "sent (fst (sendMessageStream P message mode year stream conversationHistory w)) =
     sent w @ [\<lparr>req_url = API_URL w @ ''/chat/stream'',
                 req_method = Some ''POST'',
                 req_headers = [''Content-Type'' \<mapsto> ''application/json'',
                                ''Authorization'' \<mapsto> ''Bearer '' @ template (fst (getToken w))],
                 req_body = Some (JSON_stringify P (JObj
                   [(''message'', JStr message),
                    (''mode'', JStr mode),
                    (''year'', JNum year),
                    (''stream'', JStr stream),
                    (''conversation_history'',
                       JArr (map (\<lambda>m. JObj [(''role'', JStr (role_name (msg_role m))),
                                              (''content'', JStr (msg_content m))])
                                 conversationHistory))]))\<rparr>]"
  by (simp add: sendMessageStream_def Let_def
           split: fetch_result.splits sum.splits option.splits)

lemma stream_request_eq:
  "stream_request P message mode year stream conversationHistory w =
     \<lparr>req_url = API_URL w @ ''/chat/stream'',
                 req_method = Some ''POST'',
                 req_headers = [''Content-Type'' \<mapsto> ''application/json'',
                                ''Authorization'' \<mapsto> ''Bearer '' @ template (fst (getToken w))],
                 req_body = Some (JSON_stringify P (JObj
                   [(''message'', JStr message),
                    (''mode'', JStr mode),
                    (''year'', JNum year),
                    (''stream'', JStr stream),
                    (''conversation_history'',
                       JArr (map (\<lambda>m. JObj [(''role'', JStr (role_name (msg_role m))),
                                              (''content'', JStr (msg_content m))])
                                 conversationHistory))]))\<rparr>"
  by (simp add: stream_request_def sendMessageStream_sent)

lemma sendMessageStream_reads:
  assumes "fetch P (stream_request P message mode year stream conversationHistory w) = Responds res"
    and "res_ok res"
    and "res_body res = Some reader"
  shows "snd (sendMessageStream P message mode year stream conversationHistory w) =
           read_loop P reader 0 [] []"
  using assms unfolding stream_request_eq
  by (simp add: sendMessageStream_def Let_def)

lemma sendMessageStream_lines:
  assumes "fetch P (stream_request P message mode year stream conversationHistory w) = Responds res"
    and "res_ok res"
    and "res_body res = Some (stream_of cs)"
    and "concat cs = wire ls @ rest"
    and "\<And>l. l \<in> set ls \<Longrightarrow> CHR 0x0A \<notin> set l"
    and "CHR 0x0A \<notin> set rest"
  shows "snd (sendMessageStream P message mode year stream conversationHistory w) =
           Some (concat (map (handle_line P) ls), Resolved)"
  using sendMessageStream_reads [OF assms(1,2,3)] assms(4) events_wire [of ls rest P, OF assms(5,6)]
  by (simp add: read_loop_stream_of)

lemma read_loop_broken_stream:
  "read_loop P (broken_stream cs e) 0 [] [] = Some (events P (concat cs), Rejected e)"
  using read_loop_finite [of "[]" cs "broken_stream cs e" 0 "ReadFails e" P "[]"]
  by (simp add: broken_stream_def)

section \<open>The session store\<close>

text \<open>
  C6, as the code has it. \<open>isLoggedIn\<close> is true exactly when \<open>getToken\<close> returns a
  non-empty string: \<open>!!\<close> turns a stored empty string into \<open>false\<close> although \<open>getToken\<close>
  returns it. The state after \<open>isLoggedIn\<close> is the state before it.
\<close>

theorem C6_isLoggedIn_nonempty_token:
  "fst (isLoggedIn w) = (\<exists>t. fst (getToken w) = Some t \<and> t \<noteq> []) \<and> snd (isLoggedIn w) = w"
  by (auto simp: isLoggedIn_def getToken_def split: option.splits)

theorem C6_isLoggedIn_nonempty_token_witness:
  "fst (isLoggedIn (browser (Some ''abc''))) \<and> \<not> fst (isLoggedIn (browser None))
   \<and> snd (isLoggedIn (browser (Some ''abc''))) = browser (Some ''abc'')"
  using C6_isLoggedIn_nonempty_token [of "browser (Some ''abc'')"]
        C6_isLoggedIn_nonempty_token [of "browser None"]
  by (simp add: getToken_def browser_def)

text \<open>
  C6 as stated fails on a stored empty string: \<open>getToken\<close> returns a present value and
  \<open>isLoggedIn\<close> is false.
\<close>

theorem C6_empty_token_counterexample:
  "fst (getToken (browser (Some ''''))) = Some '''' \<and> \<not> fst (isLoggedIn (browser (Some '''')))"
  by (simp add: isLoggedIn_def getToken_def browser_def)

section \<open>The request dispatcher\<close>

text \<open>
  C1, as the code has it. \<open>apiFetch\<close> sets \<open>Authorization\<close> to \<open>Bearer <token>\<close> when
  \<open>getToken\<close> returns a non-empty string; when it returns \<open>null\<close> or the empty string,
  \<open>apiFetch\<close> adds nothing and the header is the caller's own, absent when the caller
  gave none. \<open>sendMessageStream\<close> sends \<open>Bearer <token>\<close> whenever \<open>getToken\<close> returns a
  string.
\<close>

theorem C1_authorization_header:
  "(\<forall>t. fst (getToken w) = Some t \<and> t \<noteq> [] \<longrightarrow>
        req_headers (api_request P path options w) ''Authorization'' = Some (''Bearer '' @ t))
   \<and> (fst (getToken w) = None \<or> fst (getToken w) = Some [] \<longrightarrow>
        req_headers (api_request P path options w) ''Authorization''
          = caller_headers options ''Authorization'')
   \<and> (\<forall>t. fst (getToken w) = Some t \<longrightarrow>
        req_headers (stream_request P message mode year stream conversationHistory w)
          ''Authorization'' = Some (''Bearer '' @ t))"
  by (auto simp: api_request_eq stream_request_eq map_add_def split: option.splits)

theorem C1_authorization_header_witness:
  "req_headers (api_request (serving (answering 200 (Inr JNull))) ''/auth/me''
      \<lparr>init_method = None, init_headers = None, init_body = None\<rparr> (browser (Some ''abc'')))
      ''Authorization'' = Some ''Bearer abc''
   \<and> req_headers (api_request (serving (answering 200 (Inr JNull))) ''/auth/me''
      \<lparr>init_method = None, init_headers = None, init_body = None\<rparr> (browser None))
      ''Authorization'' = None
   \<and> req_headers (stream_request (serving (answering 200 (Inr JNull))) ''hello'' ''study_buddy'' 2
      ''cse'' [] (browser (Some ''abc''))) ''Authorization'' = Some ''Bearer abc''"
  using C1_authorization_header
          [where w = "browser (Some ''abc'')" and P = "serving (answering 200 (Inr JNull))"
             and path = "''/auth/me''"
             and options = "\<lparr>init_method = None, init_headers = None, init_body = None\<rparr>"
             and message = "''hello''" and mode = "''study_buddy''" and year = 2
             and stream = "''cse''" and conversationHistory = "[]"]
        C1_authorization_header
          [where w = "browser None" and P = "serving (answering 200 (Inr JNull))"
             and path = "''/auth/me''"
             and options = "\<lparr>init_method = None, init_headers = None, init_body = None\<rparr>"
             and message = "''hello''" and mode = "''study_buddy''" and year = 2
             and stream = "''cse''" and conversationHistory = "[]"]
  by (simp add: getToken_def browser_def caller_headers_def)

text \<open>
  C1 as stated fails with no credential set: \<open>apiFetch\<close> passes on an \<open>Authorization\<close>
  header that the caller supplies, and \<open>sendMessageStream\<close>, which has no guard like the
  \<open>if (token)\<close> of \<open>apiFetch\<close>, sends \<open>Bearer null\<close>.
\<close>

theorem C1_no_credential_counterexample:
  "fst (getToken (browser None)) = None
   \<and> req_headers (api_request (serving (answering 200 (Inr JNull))) ''/auth/me''
        \<lparr>init_method = None, init_headers = Some [''Authorization'' \<mapsto> ''Basic xyz''],
         init_body = None\<rparr> (browser None)) ''Authorization'' = Some ''Basic xyz''
   \<and> req_headers (stream_request (serving (streaming [])) ''hello'' ''study_buddy'' 2 ''cse'' []
        (browser None)) ''Authorization'' = Some ''Bearer null''"
  by (simp add: api_request_eq stream_request_eq getToken_def browser_def caller_headers_def
                map_add_def)

text \<open>
  C5, as the code has it. The caller's headers are merged over \<open>Content-Type\<close>, and
  \<open>Authorization\<close> is assigned after the merge: when \<open>getToken\<close> returns a non-empty
  string, \<open>Bearer <token>\<close> replaces an \<open>Authorization\<close> header of the caller. For every
  other key, and for \<open>Authorization\<close> without a token, the caller's value is sent.
\<close>

theorem C5_headers_sent:
  "req_headers (api_request P path options w) k =
     (if k = ''Authorization'' \<and> (\<exists>t. fst (getToken w) = Some t \<and> t \<noteq> [])
      then Some (''Bearer '' @ the (fst (getToken w)))
      else case caller_headers options k of
             Some v \<Rightarrow> Some v
           | None \<Rightarrow> if k = ''Content-Type'' then Some ''application/json'' else None)"
  by (auto simp: api_request_eq map_add_def split: option.splits)

theorem C5_headers_sent_witness:
  "req_headers (api_request (serving (answering 200 (Inr JNull))) ''/conversations/''
      \<lparr>init_method = Some ''POST'',
       init_headers = Some [''Content-Type'' \<mapsto> ''text/plain'', ''X-Trace'' \<mapsto> ''1''],
       init_body = None\<rparr> (browser (Some ''abc''))) ''Content-Type'' = Some ''text/plain''"
  using C5_headers_sent
          [of "serving (answering 200 (Inr JNull))" "''/conversations/''"
              "\<lparr>init_method = Some ''POST'',
                init_headers = Some [''Content-Type'' \<mapsto> ''text/plain'', ''X-Trace'' \<mapsto> ''1''],
                init_body = None\<rparr>" "browser (Some ''abc'')" "''Content-Type''"]
  by (simp add: caller_headers_def)

text \<open>
  C5 as stated fails for \<open>Authorization\<close> when a token is stored: the token's header is
  sent, not the caller's.
\<close>

theorem C5_caller_authorization_counterexample:
  "caller_headers \<lparr>init_method = None,
       init_headers = Some [''Authorization'' \<mapsto> ''Basic xyz''], init_body = None\<rparr>
     ''Authorization'' = Some ''Basic xyz''
   \<and> req_headers (api_request (serving (answering 200 (Inr JNull))) ''/auth/me''
        \<lparr>init_method = None, init_headers = Some [''Authorization'' \<mapsto> ''Basic xyz''],
         init_body = None\<rparr> (browser (Some ''abc''))) ''Authorization'' = Some ''Bearer abc''"
  by (simp add: api_request_eq getToken_def browser_def caller_headers_def)

text \<open>
  C3, as the code has it. In a browser (\<open>window\<close> defined), for every path and every
  options, a response with status 401 makes \<open>apiFetch\<close> remove the token, assign
  \<open>/login\<close> to \<open>window.location.href\<close> once, and reject with the error \<open>Unauthorized\<close>;
  one request has been sent and \<open>res.json()\<close> has not been called.
\<close>

theorem C3_unauthorized:
  assumes "has_window w"
    and "fetch P (api_request P path options w) = Responds res"
    and "res_status res = 401"
  shows "apiFetch P path options w =
           (Inl (Error (JStr ''Unauthorized'')),
            w\<lparr>localStorage := (localStorage w)(''token'' := None),
              navigations := navigations w @ [''/login''],
              sent := sent w @ [api_request P path options w]\<rparr>)"
  using assms(2) unfolding api_request_eq
  by (simp add: apiFetch_def Let_def clearToken_def assms(1,3))

theorem C3_unauthorized_witness:
  "apiFetch (serving (answering 401 (Inr (JObj [(''detail'', JStr ''expired'')])))) ''/auth/me''
      \<lparr>init_method = None, init_headers = None, init_body = None\<rparr> (browser (Some ''abc''))
   = (Inl (Error (JStr ''Unauthorized'')),
      (browser (Some ''abc''))
        \<lparr>localStorage := (localStorage (browser (Some ''abc'')))(''token'' := None),
         navigations := navigations (browser (Some ''abc'')) @ [''/login''],
         sent := sent (browser (Some ''abc'')) @
           [api_request (serving (answering 401 (Inr (JObj [(''detail'', JStr ''expired'')]))))
              ''/auth/me'' \<lparr>init_method = None, init_headers = None, init_body = None\<rparr>
              (browser (Some ''abc''))]\<rparr>)"
  using C3_unauthorized
          [of "browser (Some ''abc'')"
              "serving (answering 401 (Inr (JObj [(''detail'', JStr ''expired'')])))" "''/auth/me''"
              "\<lparr>init_method = None, init_headers = None, init_body = None\<rparr>"
              "\<lparr>res_status = 401, res_json = Inr (JObj [(''detail'', JStr ''expired'')]),
                res_body = None\<rparr>"]
  by (simp add: serving_def answering_def browser_def)

text \<open>
  C3 as stated fails where \<open>window\<close> is undefined: the assignment to
  \<open>window.location.href\<close> is guarded by \<open>typeof window !== "undefined"\<close>, so a 401 response
  is followed by no navigation.
\<close>

theorem C3_no_window_counterexample:
  "navigations (snd (apiFetch (serving (answering 401 (Inr JNull))) ''/auth/me''
      \<lparr>init_method = None, init_headers = None, init_body = None\<rparr> no_window)) = []"
  by (simp add: apiFetch_def Let_def clearToken_def serving_def answering_def no_window_def)

section \<open>The chat requests\<close>

text \<open>
  C7. The body that \<open>sendMessage\<close> and \<open>sendMessageStream\<close> transmit is the serialisation
  of an object whose \<open>conversation_history\<close> is the list of the \<open>{role, content}\<close> pairs of
  the messages, in their order. Two histories that are equal once the sources are erased
  give the same request.
\<close>

theorem C7_history_stripped:
  "req_body (chat_request P message mode year stream h w) =
     Some (JSON_stringify P (JObj
       [(''message'', JStr message), (''mode'', JStr mode), (''year'', JNum year),
        (''stream'', JStr stream),
        (''conversation_history'',
           JArr (map (\<lambda>m. JObj [(''role'', JStr (role_name (msg_role m))),
                                  (''content'', JStr (msg_content m))]) h))]))
   \<and> req_body (stream_request P message mode year stream h w) =
     Some (JSON_stringify P (JObj
       [(''message'', JStr message), (''mode'', JStr mode), (''year'', JNum year),
        (''stream'', JStr stream),
        (''conversation_history'',
           JArr (map (\<lambda>m. JObj [(''role'', JStr (role_name (msg_role m))),
                                  (''content'', JStr (msg_content m))]) h))]))
   \<and> (map (\<lambda>m. m\<lparr>msg_sources := None\<rparr>) h = map (\<lambda>m. m\<lparr>msg_sources := None\<rparr>) h'
        \<longrightarrow> chat_request P message mode year stream h w
              = chat_request P message mode year stream h' w
          \<and> stream_request P message mode year stream h w
              = stream_request P message mode year stream h' w)"
proof -
  let ?pair = "\<lambda>m. JObj [(''role'', JStr (role_name (msg_role m))),
                          (''content'', JStr (msg_content m))]"
  let ?strip = "\<lambda>m::chat_message. m\<lparr>msg_sources := None\<rparr>"
  have chat: "chat_request P message mode year stream h w =
                api_request P ''/chat''
                  \<lparr>init_method = Some ''POST'', init_headers = None,
                   init_body = Some (JSON_stringify P (JObj
                     [(''message'', JStr message), (''mode'', JStr mode), (''year'', JNum year),
                      (''stream'', JStr stream),
                      (''conversation_history'', JArr (map ?pair h))]))\<rparr> w" for h
    by (simp add: chat_request_def sendMessage_def api_request_def)
  have pair: "?pair m = ?pair (?strip m)" for m by simp
  have same: "map ?pair h = map ?pair h'" if "map ?strip h = map ?strip h'"
  proof -
    have "map ?pair h = map ?pair (map ?strip h)" by (simp add: comp_def)
    also have "\<dots> = map ?pair (map ?strip h')" using that by simp
    also have "\<dots> = map ?pair h'" by (simp add: comp_def)
    finally show ?thesis .
  qed
  have b1: "req_body (chat_request P message mode year stream h w) =
     Some (JSON_stringify P (JObj
       [(''message'', JStr message), (''mode'', JStr mode), (''year'', JNum year),
        (''stream'', JStr stream), (''conversation_history'', JArr (map ?pair h))]))"
    by (simp add: chat api_request_eq)
  have b2: "req_body (stream_request P message mode year stream h w) =
     Some (JSON_stringify P (JObj
       [(''message'', JStr message), (''mode'', JStr mode), (''year'', JNum year),
        (''stream'', JStr stream), (''conversation_history'', JArr (map ?pair h))]))"
    by (simp add: stream_request_eq)
  have b3: "chat_request P message mode year stream h w
              = chat_request P message mode year stream h' w
          \<and> stream_request P message mode year stream h w
              = stream_request P message mode year stream h' w"
    if "map ?strip h = map ?strip h'"
  proof -
    have m: "map ?pair h = map ?pair h'" using that by (rule same)
    show ?thesis unfolding chat stream_request_eq m by simp
  qed
  show ?thesis using b1 b2 b3 by blast
qed

theorem C7_history_stripped_witness:
  "chat_request (serving (answering 200 (Inr JNull))) ''hello'' ''study_buddy'' 2 ''cse''
      [\<lparr>msg_role = Assistant, msg_content = ''hi'',
        msg_sources = Some [\<lparr>filename = ''notes.pdf'', source_type = ''pdf'',
                             drive_link = None\<rparr>]\<rparr>] (browser (Some ''abc''))
   = chat_request (serving (answering 200 (Inr JNull))) ''hello'' ''study_buddy'' 2 ''cse''
      [\<lparr>msg_role = Assistant, msg_content = ''hi'', msg_sources = None\<rparr>]
      (browser (Some ''abc''))
   \<and> stream_request (serving (answering 200 (Inr JNull))) ''hello'' ''study_buddy'' 2 ''cse''
      [\<lparr>msg_role = Assistant, msg_content = ''hi'',
        msg_sources = Some [\<lparr>filename = ''notes.pdf'', source_type = ''pdf'',
                             drive_link = None\<rparr>]\<rparr>] (browser (Some ''abc''))
   = stream_request (serving (answering 200 (Inr JNull))) ''hello'' ''study_buddy'' 2 ''cse''
      [\<lparr>msg_role = Assistant, msg_content = ''hi'', msg_sources = None\<rparr>]
      (browser (Some ''abc''))"
  using C7_history_stripped
          [of "serving (answering 200 (Inr JNull))" "''hello''" "''study_buddy''" 2 "''cse''"
              "[\<lparr>msg_role = Assistant, msg_content = ''hi'',
                 msg_sources = Some [\<lparr>filename = ''notes.pdf'', source_type = ''pdf'',
                                      drive_link = None\<rparr>]\<rparr>]"
              "browser (Some ''abc'')"
              "[\<lparr>msg_role = Assistant, msg_content = ''hi'', msg_sources = None\<rparr>]"]
  by simp

section \<open>The streaming consumer\<close>

text \<open>
  C2. The body is the three lines of the example, each terminated by a newline, cut
  into reads in any way. The callbacks are \<open>onChunk("a")\<close>, \<open>onChunk("b")\<close>, \<open>onDone([])\<close>,
  in this order, \<open>onError\<close> is not called, and the promise resolves. What \<open>JSON.parse\<close>
  returns on the three texts is a hypothesis.
\<close>

theorem C2_chunks_then_done:
  assumes \<open>JSON_parse P ''{"type":"chunk","content":"a"}'' =
             Inr (JObj [(''type'', JStr ''chunk''), (''content'', JStr ''a'')])\<close>
    and \<open>JSON_parse P ''{"type":"chunk","content":"b"}'' =
             Inr (JObj [(''type'', JStr ''chunk''), (''content'', JStr ''b'')])\<close>
    and \<open>JSON_parse P ''{"type":"done","sources":[]}'' =
             Inr (JObj [(''type'', JStr ''done''), (''sources'', JArr [])])\<close>
    and \<open>fetch P (stream_request P message mode year stream h w) = Responds res\<close>
    and \<open>res_ok res\<close>
    and \<open>res_body res = Some (stream_of cs)\<close>
    and \<open>concat cs = wire [''data: {"type":"chunk","content":"a"}'',
                            ''data: {"type":"chunk","content":"b"}'',
                            ''data: {"type":"done","sources":[]}'']\<close>
  shows \<open>snd (sendMessageStream P message mode year stream h w) =
           Some ([OnChunk (JStr ''a''), OnChunk (JStr ''b''), OnDone (JArr [])], Resolved)\<close>
proof -
  let ?ls = \<open>[''data: {"type":"chunk","content":"a"}'',
              ''data: {"type":"chunk","content":"b"}'',
              ''data: {"type":"done","sources":[]}'']\<close>
  have "snd (sendMessageStream P message mode year stream h w) =
          Some (concat (map (handle_line P) ?ls), Resolved)"
  proof (rule sendMessageStream_lines [OF assms(4,5,6)])
    show "concat cs = wire ?ls @ []" using assms(7) by simp
    show "CHR 0x0A \<notin> set l" if "l \<in> set ?ls" for l using that by auto
    show "CHR 0x0A \<notin> set []" by simp
  qed
  moreover have "concat (map (handle_line P) ?ls) =
                   [OnChunk (JStr ''a''), OnChunk (JStr ''b''), OnDone (JArr [])]"
    by (simp add: handle_line_def dispatch_def js_or_def assms(1,2,3))
  ultimately show ?thesis by simp
qed

theorem C2_chunks_then_done_witness:
  \<open>snd (sendMessageStream
          (serving (streaming
             [''data: {"type":"chunk","con'',
              ''tent":"a"}'' @ [CHR 0x0A] @ ''data: {"type":"chunk","content":"b"}''
                 @ [CHR 0x0A] @ ''data: {"type":"do'',
              ''ne","sources":[]}'' @ [CHR 0x0A]]))
          ''hello'' ''study_buddy'' 2 ''cse'' [] (browser (Some ''abc''))) =
     Some ([OnChunk (JStr ''a''), OnChunk (JStr ''b''), OnDone (JArr [])], Resolved)\<close>
  using C2_chunks_then_done
    [where P = \<open>serving (streaming
             [''data: {"type":"chunk","con'',
              ''tent":"a"}'' @ [CHR 0x0A] @ ''data: {"type":"chunk","content":"b"}''
                 @ [CHR 0x0A] @ ''data: {"type":"do'',
              ''ne","sources":[]}'' @ [CHR 0x0A]])\<close>
       and cs = \<open>[''data: {"type":"chunk","con'',
              ''tent":"a"}'' @ [CHR 0x0A] @ ''data: {"type":"chunk","content":"b"}''
                 @ [CHR 0x0A] @ ''data: {"type":"do'',
              ''ne","sources":[]}'' @ [CHR 0x0A]]\<close>
       and res = \<open>\<lparr>res_status = 200, res_json = Inl SyntaxError, res_body = Some (stream_of
            [''data: {"type":"chunk","con'',
              ''tent":"a"}'' @ [CHR 0x0A] @ ''data: {"type":"chunk","content":"b"}''
                 @ [CHR 0x0A] @ ''data: {"type":"do'',
              ''ne","sources":[]}'' @ [CHR 0x0A]])\<rparr>\<close>
       and message = "''hello''" and mode = "''study_buddy''" and year = 2
       and stream = "''cse''" and h = "[]" and w = "browser (Some ''abc'')"]
  by (simp add: serving_def streaming_def sample_parse_def res_ok_def wire_def)

text \<open>
  C8. A line \<open>data: bad\<close> on which \<open>JSON.parse\<close> throws, between two lines that carry
  \<open>chunk\<close> events, anywhere in a stream cut into reads in any way: the two chunks are
  delivered in order with no callback between them, and the lines after them are
  handled as they are in any other place.
\<close>

theorem C8_malformed_line_skipped:
  assumes "JSON_parse P ja = Inr da"
    and "get_prop da ''type'' = Inr (JStr ''chunk'')"
    and "get_prop da ''content'' = Inr ca"
    and "JSON_parse P bad = Inl e"
    and "JSON_parse P jb = Inr db"
    and "get_prop db ''type'' = Inr (JStr ''chunk'')"
    and "get_prop db ''content'' = Inr cb"
    and "fetch P (stream_request P message mode year stream h w) = Responds res"
    and "res_ok res"
    and "res_body res = Some (stream_of cs)"
    and "concat cs =
           wire (before @ [''data: '' @ ja, ''data: '' @ bad, ''data: '' @ jb] @ after) @ rest"
    and "\<forall>l \<in> set (before @ [ja, bad, jb] @ after). CHR 0x0A \<notin> set l"
    and "CHR 0x0A \<notin> set rest"
  shows "snd (sendMessageStream P message mode year stream h w) =
           Some (concat (map (handle_line P) before)
                   @ [OnChunk ca, OnChunk cb]
                   @ concat (map (handle_line P) after), Resolved)"
proof -
  let ?ls = "before @ [''data: '' @ ja, ''data: '' @ bad, ''data: '' @ jb] @ after"
  have "snd (sendMessageStream P message mode year stream h w) =
          Some (concat (map (handle_line P) ?ls), Resolved)"
  proof (rule sendMessageStream_lines [OF assms(8,9,10,11)])
    show "CHR 0x0A \<notin> set l" if "l \<in> set ?ls" for l using that assms(12) by auto
    show "CHR 0x0A \<notin> set rest" by (rule assms(13))
  qed
  moreover have "handle_line P (''data: '' @ ja) = [OnChunk ca]"
    by (simp add: handle_line_def dispatch_def assms(1,2,3))
  moreover have "handle_line P (''data: '' @ bad) = []"
    by (simp add: handle_line_def assms(4))
  moreover have "handle_line P (''data: '' @ jb) = [OnChunk cb]"
    by (simp add: handle_line_def dispatch_def assms(5,6,7))
  ultimately show ?thesis by simp
qed

theorem C8_malformed_line_skipped_witness:
  \<open>snd (sendMessageStream
          (serving (streaming
             [''data: {"type":"chunk","content":"a"}'' @ [CHR 0x0A] @ ''data: {bro'',
              ''ken'' @ [CHR 0x0A] @ ''data: {"type":"chunk","content":"b"}'' @ [CHR 0x0A]
                 @ ''data: {"type":"done","sources":[]}'' @ [CHR 0x0A]]))
          ''hello'' ''study_buddy'' 2 ''cse'' [] (browser (Some ''abc''))) =
     Some ([OnChunk (JStr ''a''), OnChunk (JStr ''b''), OnDone (JArr [])], Resolved)\<close>
  using C8_malformed_line_skipped
    [where P = \<open>serving (streaming
             [''data: {"type":"chunk","content":"a"}'' @ [CHR 0x0A] @ ''data: {bro'',
              ''ken'' @ [CHR 0x0A] @ ''data: {"type":"chunk","content":"b"}'' @ [CHR 0x0A]
                 @ ''data: {"type":"done","sources":[]}'' @ [CHR 0x0A]])\<close>
       and cs = \<open>[''data: {"type":"chunk","content":"a"}'' @ [CHR 0x0A] @ ''data: {bro'',
              ''ken'' @ [CHR 0x0A] @ ''data: {"type":"chunk","content":"b"}'' @ [CHR 0x0A]
                 @ ''data: {"type":"done","sources":[]}'' @ [CHR 0x0A]]\<close>
       and res = \<open>\<lparr>res_status = 200, res_json = Inl SyntaxError, res_body = Some (stream_of
            [''data: {"type":"chunk","content":"a"}'' @ [CHR 0x0A] @ ''data: {bro'',
              ''ken'' @ [CHR 0x0A] @ ''data: {"type":"chunk","content":"b"}'' @ [CHR 0x0A]
                 @ ''data: {"type":"done","sources":[]}'' @ [CHR 0x0A]])\<rparr>\<close>
       and ja = \<open>''{"type":"chunk","content":"a"}''\<close>
       and da = \<open>JObj [(''type'', JStr ''chunk''), (''content'', JStr ''a'')]\<close>
       and ca = \<open>JStr ''a''\<close>
       and bad = \<open>''{broken''\<close> and e = SyntaxError
       and jb = \<open>''{"type":"chunk","content":"b"}''\<close>
       and db = \<open>JObj [(''type'', JStr ''chunk''), (''content'', JStr ''b'')]\<close>
       and cb = \<open>JStr ''b''\<close>
       and before = \<open>[]\<close> and after = \<open>[''data: {"type":"done","sources":[]}'']\<close>
       and rest = \<open>[]\<close>
       and message = "''hello''" and mode = "''study_buddy''" and year = 2
       and stream = "''cse''" and h = "[]" and w = "browser (Some ''abc'')"]
  by (simp add: serving_def streaming_def sample_parse_def res_ok_def wire_def
                handle_line_def dispatch_def js_or_def)

text \<open>
  C10. The loop ends only when a read reports the end of the stream. A \<open>done\<close> or
  \<open>error\<close> line is dispatched wherever it stands, and so is every line after it: with
  two such lines in the stream, each calls its callback, and the lines before, between
  and after them are handled as they are in any other place.
\<close>

theorem C10_no_stop_after_terminal:
  assumes "JSON_parse P ja = Inr da"
    and "get_prop da ''type'' = Inr (JStr ka)"
    and "ka = ''done'' \<or> ka = ''error''"
    and "get_prop da ''sources'' = Inr sa"
    and "get_prop da ''content'' = Inr ca"
    and "JSON_parse P jb = Inr db"
    and "get_prop db ''type'' = Inr (JStr kb)"
    and "kb = ''done'' \<or> kb = ''error''"
    and "get_prop db ''sources'' = Inr sb"
    and "get_prop db ''content'' = Inr cb"
    and "fetch P (stream_request P message mode year stream h w) = Responds res"
    and "res_ok res"
    and "res_body res = Some (stream_of cs)"
    and "concat cs =
           wire (before @ [''data: '' @ ja] @ between @ [''data: '' @ jb] @ after) @ rest"
    and "\<forall>l \<in> set (before @ [ja] @ between @ [jb] @ after). CHR 0x0A \<notin> set l"
    and "CHR 0x0A \<notin> set rest"
  shows "snd (sendMessageStream P message mode year stream h w) =
           Some (concat (map (handle_line P) before)
                   @ [if ka = ''done'' then OnDone (js_or sa (JArr [])) else OnError ca]
                   @ concat (map (handle_line P) between)
                   @ [if kb = ''done'' then OnDone (js_or sb (JArr [])) else OnError cb]
                   @ concat (map (handle_line P) after), Resolved)"
proof -
  let ?ls = "before @ [''data: '' @ ja] @ between @ [''data: '' @ jb] @ after"
  have "snd (sendMessageStream P message mode year stream h w) =
          Some (concat (map (handle_line P) ?ls), Resolved)"
  proof (rule sendMessageStream_lines [OF assms(11,12,13,14)])
    show "CHR 0x0A \<notin> set l" if "l \<in> set ?ls" for l using that assms(15) by auto
    show "CHR 0x0A \<notin> set rest" by (rule assms(16))
  qed
  moreover have "handle_line P (''data: '' @ ja) =
                   [if ka = ''done'' then OnDone (js_or sa (JArr [])) else OnError ca]"
    using assms(3) by (auto simp: handle_line_def dispatch_def assms(1,2,4,5))
  moreover have "handle_line P (''data: '' @ jb) =
                   [if kb = ''done'' then OnDone (js_or sb (JArr [])) else OnError cb]"
    using assms(8) by (auto simp: handle_line_def dispatch_def assms(6,7,9,10))
  ultimately show ?thesis by simp
qed

theorem C10_no_stop_after_terminal_witness:
  \<open>snd (sendMessageStream
          (serving (streaming
             [''data: {"type":"done","sources":[]}'' @ [CHR 0x0A]
                 @ ''data: {"type":"chunk","content":"a"}'' @ [CHR 0x0A],
              ''data: {"type":"done","sources":[]}'' @ [CHR 0x0A]
                 @ ''data: {"type":"error","content":"boom"}'' @ [CHR 0x0A]]))
          ''hello'' ''study_buddy'' 2 ''cse'' [] (browser (Some ''abc''))) =
     Some ([OnDone (JArr []), OnChunk (JStr ''a''), OnDone (JArr []), OnError (JStr ''boom'')],
           Resolved)\<close>
  using C10_no_stop_after_terminal
    [where P = \<open>serving (streaming
             [''data: {"type":"done","sources":[]}'' @ [CHR 0x0A]
                 @ ''data: {"type":"chunk","content":"a"}'' @ [CHR 0x0A],
              ''data: {"type":"done","sources":[]}'' @ [CHR 0x0A]
                 @ ''data: {"type":"error","content":"boom"}'' @ [CHR 0x0A]])\<close>
       and cs = \<open>[''data: {"type":"done","sources":[]}'' @ [CHR 0x0A]
                 @ ''data: {"type":"chunk","content":"a"}'' @ [CHR 0x0A],
              ''data: {"type":"done","sources":[]}'' @ [CHR 0x0A]
                 @ ''data: {"type":"error","content":"boom"}'' @ [CHR 0x0A]]\<close>
       and res = \<open>\<lparr>res_status = 200, res_json = Inl SyntaxError, res_body = Some (stream_of
            [''data: {"type":"done","sources":[]}'' @ [CHR 0x0A]
                 @ ''data: {"type":"chunk","content":"a"}'' @ [CHR 0x0A],
              ''data: {"type":"done","sources":[]}'' @ [CHR 0x0A]
                 @ ''data: {"type":"error","content":"boom"}'' @ [CHR 0x0A]])\<rparr>\<close>
       and ja = \<open>''{"type":"done","sources":[]}''\<close>
       and da = \<open>JObj [(''type'', JStr ''done''), (''sources'', JArr [])]\<close>
       and ka = \<open>''done''\<close> and sa = \<open>JArr []\<close> and ca = Undefined
       and jb = \<open>''{"type":"done","sources":[]}''\<close>
       and db = \<open>JObj [(''type'', JStr ''done''), (''sources'', JArr [])]\<close>
       and kb = \<open>''done''\<close> and sb = \<open>JArr []\<close> and cb = Undefined
       and before = \<open>[]\<close>
       and between = \<open>[''data: {"type":"chunk","content":"a"}'']\<close>
       and after = \<open>[''data: {"type":"error","content":"boom"}'']\<close>
       and rest = \<open>[]\<close>
       and message = "''hello''" and mode = "''study_buddy''" and year = 2
       and stream = "''cse''" and h = "[]" and w = "browser (Some ''abc'')"]
  by (simp add: serving_def streaming_def sample_parse_def res_ok_def wire_def
                handle_line_def dispatch_def js_or_def)

text \<open>
  C9, as the code has it. On a response that is not ok, \<open>onError\<close> is called once and
  nothing else, whatever \<open>res.body\<close> is: with \<open>Stream failed\<close> when \<open>res.json()\<close>
  rejects, and otherwise, for a body whose \<open>detail\<close> can be read (any body but \<open>null\<close>),
  with \<open>detail\<close> when it is truthy and with \<open>Stream failed\<close> when it is missing or falsy.
  On an ok response without a body, \<open>onError\<close> is called once with \<open>No response body\<close>
  and nothing else. The promise resolves in each case.
\<close>

theorem C9_stream_init_errors:
  assumes "fetch P (stream_request P message mode year stream h w) = Responds res"
  shows "(\<not> res_ok res \<and> res_json res = Inl e \<longrightarrow>
            snd (sendMessageStream P message mode year stream h w) =
              Some ([OnError (JStr ''Stream failed'')], Resolved))
       \<and> (\<not> res_ok res \<and> res_json res = Inr v \<and> get_prop v ''detail'' = Inr d \<longrightarrow>
            snd (sendMessageStream P message mode year stream h w) =
              Some ([OnError (js_or d (JStr ''Stream failed''))], Resolved))
       \<and> (res_ok res \<and> res_body res = None \<longrightarrow>
            snd (sendMessageStream P message mode year stream h w) =
              Some ([OnError (JStr ''No response body'')], Resolved))"
  using assms unfolding stream_request_eq
  by (simp add: sendMessageStream_def Let_def js_or_def)

theorem C9_stream_init_errors_witness:
  "snd (sendMessageStream (serving (answering 502 (Inl SyntaxError)))
          ''hello'' ''study_buddy'' 2 ''cse'' [] (browser (Some ''abc''))) =
     Some ([OnError (JStr ''Stream failed'')], Resolved)
   \<and> snd (sendMessageStream (serving (answering 400 (Inr (JObj [(''detail'', JStr ''bad mode'')]))))
          ''hello'' ''study_buddy'' 2 ''cse'' [] (browser (Some ''abc''))) =
     Some ([OnError (JStr ''bad mode'')], Resolved)
   \<and> snd (sendMessageStream (serving (answering 200 (Inr JNull)))
          ''hello'' ''study_buddy'' 2 ''cse'' [] (browser (Some ''abc''))) =
     Some ([OnError (JStr ''No response body'')], Resolved)"
  using C9_stream_init_errors
          [of "serving (answering 502 (Inl SyntaxError))" "''hello''" "''study_buddy''" 2 "''cse''"
              "[]" "browser (Some ''abc'')"
              "\<lparr>res_status = 502, res_json = Inl SyntaxError, res_body = None\<rparr>" SyntaxError]
        C9_stream_init_errors
          [of "serving (answering 400 (Inr (JObj [(''detail'', JStr ''bad mode'')])))"
              "''hello''" "''study_buddy''" 2 "''cse''" "[]" "browser (Some ''abc'')"
              "\<lparr>res_status = 400, res_json = Inr (JObj [(''detail'', JStr ''bad mode'')]),
                res_body = None\<rparr>" _
              "JObj [(''detail'', JStr ''bad mode'')]" "JStr ''bad mode''"]
        C9_stream_init_errors
          [of "serving (answering 200 (Inr JNull))" "''hello''" "''study_buddy''" 2 "''cse''"
              "[]" "browser (Some ''abc'')"
              "\<lparr>res_status = 200, res_json = Inr JNull, res_body = None\<rparr>"]
  by (simp add: serving_def answering_def res_ok_def js_or_def)

text \<open>
  C9 as stated fails on two bodies of a response that is not ok. With
  \<open>{"detail": ""}\<close> the message field is the empty string and \<open>onError\<close> gets
  \<open>Stream failed\<close>. With \<open>null\<close>, reading \<open>error.detail\<close> throws: no callback is called
  and the promise rejects.
\<close>

theorem C9_error_body_counterexample:
  "snd (sendMessageStream (serving (answering 500 (Inr (JObj [(''detail'', JStr '''')]))))
          ''hello'' ''study_buddy'' 2 ''cse'' [] (browser (Some ''abc''))) =
     Some ([OnError (JStr ''Stream failed'')], Resolved)
   \<and> snd (sendMessageStream (serving (answering 500 (Inr JNull)))
          ''hello'' ''study_buddy'' 2 ''cse'' [] (browser (Some ''abc''))) =
     Some ([], Rejected TypeError)"
  by (simp add: sendMessageStream_def Let_def serving_def answering_def res_ok_def js_or_def)

text \<open>
  C4, as the code has it. Nothing in \<open>sendMessageStream\<close> catches a failure of the
  transport: when \<open>fetch\<close> rejects, and when a \<open>read()\<close> rejects, the promise rejects with
  that error and \<open>onError\<close> is not called for it. When \<open>fetch\<close> resolves and the reads
  resolve up to the end of the stream, the promise resolves: what the server reports (a
  status that is not ok with a body other than \<open>null\<close>, a missing body, an \<open>error\<close>
  event) reaches the caller through \<open>onError\<close> only.
\<close>

theorem C4_rejects_on_transport_failure_only:
  "(fetch P (stream_request P message mode year stream h w) = FetchFails e \<longrightarrow>
      snd (sendMessageStream P message mode year stream h w) = Some ([], Rejected e))
   \<and> (fetch P (stream_request P message mode year stream h w) = Responds res
        \<and> res_ok res \<and> res_body res = Some (broken_stream cs e) \<longrightarrow>
      snd (sendMessageStream P message mode year stream h w) =
        Some (events P (concat cs), Rejected e))
   \<and> (fetch P (stream_request P message mode year stream h w) = Responds res
        \<and> res_ok res \<and> res_body res = Some (stream_of cs) \<longrightarrow>
      snd (sendMessageStream P message mode year stream h w) =
        Some (events P (concat cs), Resolved))
   \<and> (fetch P (stream_request P message mode year stream h w) = Responds res
        \<and> res_ok res \<and> res_body res = None \<longrightarrow>
      snd (sendMessageStream P message mode year stream h w) =
        Some ([OnError (JStr ''No response body'')], Resolved))
   \<and> (fetch P (stream_request P message mode year stream h w) = Responds res
        \<and> \<not> res_ok res \<and> res_json res \<noteq> Inr JNull \<and> res_json res \<noteq> Inr Undefined \<longrightarrow>
      (\<exists>x. snd (sendMessageStream P message mode year stream h w) =
             Some ([OnError x], Resolved)))"
proof -
  let ?req = "stream_request P message mode year stream h w"
  let ?out = "snd (sendMessageStream P message mode year stream h w)"
  have a: "?out = Some ([], Rejected e)" if "fetch P ?req = FetchFails e"
    using that unfolding stream_request_eq by (simp add: sendMessageStream_def Let_def)
  have b: "?out = Some (events P (concat cs), Rejected e)"
    if "fetch P ?req = Responds res" "res_ok res" "res_body res = Some (broken_stream cs e)"
    using sendMessageStream_reads [OF that] by (simp add: read_loop_broken_stream)
  have c: "?out = Some (events P (concat cs), Resolved)"
    if "fetch P ?req = Responds res" "res_ok res" "res_body res = Some (stream_of cs)"
    using sendMessageStream_reads [OF that] by (simp add: read_loop_stream_of)
  have d: "?out = Some ([OnError (JStr ''No response body'')], Resolved)"
    if "fetch P ?req = Responds res" "res_ok res" "res_body res = None"
    using that unfolding stream_request_eq by (simp add: sendMessageStream_def Let_def)
  have f: "\<exists>x. ?out = Some ([OnError x], Resolved)"
    if "fetch P ?req = Responds res" "\<not> res_ok res" "res_json res \<noteq> Inr JNull"
       "res_json res \<noteq> Inr Undefined"
  proof (cases "res_json res")
    case (Inl x)
    with that(1,2) show ?thesis
      unfolding stream_request_eq by (simp add: sendMessageStream_def Let_def)
  next
    case (Inr v)
    with that(3,4) have "v \<noteq> JNull" "v \<noteq> Undefined" by auto
    then have "\<exists>d. get_prop v ''detail'' = Inr d"
      by (cases v) (auto split: option.splits)
    then obtain d where "get_prop v ''detail'' = Inr d" by blast
    with Inr that(1,2) show ?thesis
      unfolding stream_request_eq by (simp add: sendMessageStream_def Let_def)
  qed
  show ?thesis using a b c d f by blast
qed

theorem C4_rejects_on_transport_failure_only_witness:
  \<open>snd (sendMessageStream (serving (FetchFails TypeError))
          ''hello'' ''study_buddy'' 2 ''cse'' [] (browser (Some ''abc''))) =
     Some ([], Rejected TypeError)
   \<and> snd (sendMessageStream
            (serving (Responds \<lparr>res_status = 200, res_json = Inl SyntaxError,
               res_body = Some (broken_stream
                 [''data: {"type":"chunk","content":"a"}'' @ [CHR 0x0A]] TypeError)\<rparr>))
          ''hello'' ''study_buddy'' 2 ''cse'' [] (browser (Some ''abc''))) =
     Some ([OnChunk (JStr ''a'')], Rejected TypeError)
   \<and> snd (sendMessageStream
            (serving (streaming [''data: {"type":"error","content":"boom"}'' @ [CHR 0x0A]]))
          ''hello'' ''study_buddy'' 2 ''cse'' [] (browser (Some ''abc''))) =
     Some ([OnError (JStr ''boom'')], Resolved)
   \<and> snd (sendMessageStream (serving (answering 200 (Inr JNull)))
          ''hello'' ''study_buddy'' 2 ''cse'' [] (browser (Some ''abc''))) =
     Some ([OnError (JStr ''No response body'')], Resolved)
   \<and> (\<exists>x. snd (sendMessageStream (serving (answering 500 (Inl SyntaxError)))
          ''hello'' ''study_buddy'' 2 ''cse'' [] (browser (Some ''abc''))) =
     Some ([OnError x], Resolved))\<close>
  using C4_rejects_on_transport_failure_only
          [where P = \<open>serving (FetchFails TypeError)\<close> and e = TypeError
             and message = "''hello''" and mode = "''study_buddy''" and year = 2
             and stream = "''cse''" and h = "[]" and w = "browser (Some ''abc'')"]
        C4_rejects_on_transport_failure_only
          [where P = \<open>serving (Responds \<lparr>res_status = 200, res_json = Inl SyntaxError,
               res_body = Some (broken_stream
                 [''data: {"type":"chunk","content":"a"}'' @ [CHR 0x0A]] TypeError)\<rparr>)\<close>
             and res = \<open>\<lparr>res_status = 200, res_json = Inl SyntaxError,
               res_body = Some (broken_stream
                 [''data: {"type":"chunk","content":"a"}'' @ [CHR 0x0A]] TypeError)\<rparr>\<close>
             and cs = \<open>[''data: {"type":"chunk","content":"a"}'' @ [CHR 0x0A]]\<close>
             and e = TypeError
             and message = "''hello''" and mode = "''study_buddy''" and year = 2
             and stream = "''cse''" and h = "[]" and w = "browser (Some ''abc'')"]
        C4_rejects_on_transport_failure_only
          [where P = \<open>serving (streaming
                        [''data: {"type":"error","content":"boom"}'' @ [CHR 0x0A]])\<close>
             and res = \<open>\<lparr>res_status = 200, res_json = Inl SyntaxError,
               res_body = Some (stream_of
                 [''data: {"type":"error","content":"boom"}'' @ [CHR 0x0A]])\<rparr>\<close>
             and cs = \<open>[''data: {"type":"error","content":"boom"}'' @ [CHR 0x0A]]\<close>
             and message = "''hello''" and mode = "''study_buddy''" and year = 2
             and stream = "''cse''" and h = "[]" and w = "browser (Some ''abc'')"]
        C4_rejects_on_transport_failure_only
          [where P = \<open>serving (answering 200 (Inr JNull))\<close>
             and res = \<open>\<lparr>res_status = 200, res_json = Inr JNull, res_body = None\<rparr>\<close>
             and message = "''hello''" and mode = "''study_buddy''" and year = 2
             and stream = "''cse''" and h = "[]" and w = "browser (Some ''abc'')"]
        C4_rejects_on_transport_failure_only
          [where P = \<open>serving (answering 500 (Inl SyntaxError))\<close>
             and res = \<open>\<lparr>res_status = 500, res_json = Inl SyntaxError, res_body = None\<rparr>\<close>
             and message = "''hello''" and mode = "''study_buddy''" and year = 2
             and stream = "''cse''" and h = "[]" and w = "browser (Some ''abc'')"]
  by (simp add: serving_def streaming_def answering_def res_ok_def sample_parse_def
                events_def handle_line_def dispatch_def js_or_def)

text \<open>
  C4 as stated fails when the transport fails: \<open>fetch\<close> rejects, no callback is called
  and the promise of \<open>sendMessageStream\<close> rejects.
\<close>

theorem C4_fetch_rejects_counterexample:
  "snd (sendMessageStream (serving (FetchFails TypeError))
          ''hello'' ''study_buddy'' 2 ''cse'' [] (browser (Some ''abc''))) =
     Some ([], Rejected TypeError)"
  by (simp add: sendMessageStream_def Let_def serving_def)

end
